theory Spec2Isabelle
  imports Complex_Main "HOL-Library.AList" "HOL-Library.Multiset"
begin

section \<open>Python strings\<close>

text \<open>
  A Python \<open>str\<close> is modelled as the list of its code points, one \<open>char\<close> each; the
  model covers the code points U+0000 .. U+00FF (ASCII and Latin-1), which is what an
  Isabelle \<open>char\<close> can hold. \<open>length\<close> therefore counts code points, as Python's
  \<open>len\<close> does. The character classes below are the values of Python's \<open>str\<close>
  predicates on that range.
\<close>

definition py_isspace :: "char \<Rightarrow> bool" where
  \<comment> \<open>\<open>c.isspace()\<close>: TAB..CR, FS..US, SPACE, NEL (U+0085) and NBSP (U+00A0).\<close>
  "py_isspace c =
     (let n = (of_char c :: nat)
      in (9 \<le> n \<and> n \<le> 13) \<or> (28 \<le> n \<and> n \<le> 32) \<or> n = 133 \<or> n = 160)"

definition py_isdigit :: "char \<Rightarrow> bool" where
  \<comment> \<open>\<open>c.isdigit()\<close>: the decimal digits and the superscripts U+00B2, U+00B3, U+00B9.\<close>
  "py_isdigit c =
     (let n = (of_char c :: nat)
      in (48 \<le> n \<and> n \<le> 57) \<or> n = 178 \<or> n = 179 \<or> n = 185)"

definition py_isalpha :: "char \<Rightarrow> bool" where
  \<comment> \<open>\<open>c.isalpha()\<close> on U+0000 .. U+00FF.\<close>
  "py_isalpha c =
     (let n = (of_char c :: nat)
      in (65 \<le> n \<and> n \<le> 90) \<or> (97 \<le> n \<and> n \<le> 122) \<or> n = 170 \<or> n = 181 \<or> n = 186
         \<or> (192 \<le> n \<and> n \<le> 214) \<or> (216 \<le> n \<and> n \<le> 246) \<or> (248 \<le> n \<and> n \<le> 255))"

definition py_isalnum :: "char \<Rightarrow> bool" where
  \<comment> \<open>\<open>c.isalnum()\<close>: alphabetic, or numeric (digits, superscripts, the fractions
      U+00BC .. U+00BE).\<close>
  "py_isalnum c =
     (let n = (of_char c :: nat)
      in py_isalpha c \<or> py_isdigit c \<or> (188 \<le> n \<and> n \<le> 190))"

definition py_str_isdigit :: "string \<Rightarrow> bool" where
  \<comment> \<open>\<open>s.isdigit()\<close>: false on the empty string.\<close>
  "py_str_isdigit s = (s \<noteq> [] \<and> list_all py_isdigit s)"

definition py_strip :: "string \<Rightarrow> string" where
  \<comment> \<open>\<open>s.strip()\<close>: leading and trailing whitespace removed.\<close>
  "py_strip s = rev (dropWhile py_isspace (rev (dropWhile py_isspace s)))"

definition py_lower :: "char \<Rightarrow> char" where
  \<comment> \<open>\<open>str.lower\<close>, applied in \<open>clean_name\<close> to ASCII text only.\<close>
  "py_lower c =
     (let n = (of_char c :: nat)
      in if 65 \<le> n \<and> n \<le> 90 then char_of (n + 32) else c)"

definition nfkd_ascii_char :: "char \<Rightarrow> string" where
  \<comment> \<open>One code point through
      \<open>unicodedata.normalize('NFKD', .).encode('ASCII', 'ignore').decode('utf-8')\<close>:
      the ASCII part of its compatibility decomposition.\<close>
  "nfkd_ascii_char c =
     (let n = (of_char c :: nat)
      in if n < 128 then [c]
         else if n = 160 \<or> n = 168 \<or> n = 175 \<or> n = 180 \<or> n = 184 then '' ''
         else if n = 170 then ''a''
         else if n = 186 then ''o''
         else if n = 178 then ''2''
         else if n = 179 then ''3''
         else if n = 185 then ''1''
         else if n = 188 then ''14''
         else if n = 189 then ''12''
         else if n = 190 then ''34''
         else if 192 \<le> n \<and> n \<le> 197 then ''A''
         else if n = 199 then ''C''
         else if 200 \<le> n \<and> n \<le> 203 then ''E''
         else if 204 \<le> n \<and> n \<le> 207 then ''I''
         else if n = 209 then ''N''
         else if 210 \<le> n \<and> n \<le> 214 then ''O''
         else if 217 \<le> n \<and> n \<le> 220 then ''U''
         else if n = 221 then ''Y''
         else if 224 \<le> n \<and> n \<le> 229 then ''a''
         else if n = 231 then ''c''
         else if 232 \<le> n \<and> n \<le> 235 then ''e''
         else if 236 \<le> n \<and> n \<le> 239 then ''i''
         else if n = 241 then ''n''
         else if 242 \<le> n \<and> n \<le> 246 then ''o''
         else if 249 \<le> n \<and> n \<le> 252 then ''u''
         else if n = 253 \<or> n = 255 then ''y''
         else [])"

definition nfkd_ascii :: "string \<Rightarrow> string" where
  "nfkd_ascii s = concat (map nfkd_ascii_char s)"

fun split_ws :: "string \<Rightarrow> string \<Rightarrow> string list" where
  \<comment> \<open>\<open>s.split()\<close>: the maximal runs of non-whitespace; the second argument is the
      run being read, reversed.\<close>
  "split_ws [] w = (if w = [] then [] else [rev w])"
| "split_ws (c # cs) w =
     (if py_isspace c then (if w = [] then split_ws cs [] else rev w # split_ws cs [])
      else split_ws cs (c # w))"

definition py_split :: "string \<Rightarrow> string list" where
  "py_split s = split_ws s []"

fun py_join :: "string \<Rightarrow> string list \<Rightarrow> string" where
  \<comment> \<open>\<open>sep.join(ws)\<close>\<close>
  "py_join sep [] = []"
| "py_join sep [w] = w"
| "py_join sep (w # v # ws) = w @ sep @ py_join sep (v # ws)"

section \<open>Normalisation and match key (consolidar.py, consolidar_visible.py)\<close>

definition clean_name :: "string \<Rightarrow> string" where
  \<comment> \<open>The column \<open>nombre\<close> is a non-null string, so the \<open>isinstance\<close> branch that
      returns the empty string is not reached.\<close>
  "clean_name name =
     (let n = map py_lower (nfkd_ascii name)
      in py_join '' ''
           (py_split (map (\<lambda>c. if py_isalnum c \<or> py_isspace c then c else CHR '' '') n)))"

definition is_valid_ean :: "string option \<Rightarrow> bool" where
  \<comment> \<open>The column \<open>ean\<close> is a nullable string: \<open>None\<close> is the only non-\<open>str\<close> value.\<close>
  "is_valid_ean ean =
     (case ean of
        None \<Rightarrow> False
      | Some s \<Rightarrow>
          (let e = py_strip s in py_str_isdigit e \<and> 7 \<le> length e \<and> length e \<le> 14))"

definition py_str :: "string option \<Rightarrow> string" where
  \<comment> \<open>\<open>str(ean)\<close>\<close>
  "py_str v = (case v of None \<Rightarrow> ''None'' | Some s \<Rightarrow> s)"

definition match_key :: "string option \<Rightarrow> string \<Rightarrow> string" where
  \<comment> \<open>The key of a row, as both scripts compute it in \<open>main\<close>.\<close>
  "match_key ean nombre =
     (if is_valid_ean ean then py_str ean else ''NAME_'' @ clean_name nombre)"

definition spec_is_valid_ean :: "string option \<Rightarrow> bool" where
  \<comment> \<open>The specification's wording of the EAN test, for comparison with
      \<open>is_valid_ean\<close>: non-null, decimal digits only, length 7 to 14.\<close>
  "spec_is_valid_ean ean =
     (case ean of
        None \<Rightarrow> False
      | Some s \<Rightarrow>
          list_all (\<lambda>c. 48 \<le> (of_char c :: nat) \<and> (of_char c :: nat) \<le> 57) s
          \<and> 7 \<le> length s \<and> length s \<le> 14)"

section \<open>The aggregator (consolidar_visible.py, the loop of \<open>main\<close>)\<close>

text \<open>
  A row of the paged query. The columns \<open>nombre\<close>, \<open>url\<close> and \<open>farmacia\<close> are
  non-null; \<open>ean\<close> and \<open>en_stock\<close> are nullable, and the loop tests \<open>precio\<close>
  against \<open>None\<close>. A price is a \<open>DECIMAL(10, 2)\<close> turned into a \<open>float\<close>; it is
  modelled by the rational number it denotes, on which \<open><\<close>, \<open>min\<close> and \<open>max\<close>
  agree with the floats'.
\<close>

record row =
  p_id :: nat
  farmacia :: string
  nombre :: string
  url :: string
  ean :: "string option"
  precio :: "rat option"
  en_stock :: "bool option"

record grupo =
  nombre_ref :: string
  ean_ref :: string
  precios :: "string \<rightharpoonup> rat"
  urls :: "string \<rightharpoonup> string"
  stocks :: "string \<rightharpoonup> bool option"

text \<open>
  \<open>grupos\<close> is a \<open>defaultdict\<close>: an association list in insertion order, with the
  factory's value for a key that is read before it is written.
\<close>

type_synonym grupos = "(string \<times> grupo) list"

definition grupo_nuevo :: grupo where
  "grupo_nuevo =
     \<lparr>nombre_ref = [], ean_ref = [], precios = Map.empty, urls = Map.empty,
      stocks = Map.empty\<rparr>"

definition grupos_get :: "grupos \<Rightarrow> string \<Rightarrow> grupo" where
  "grupos_get gs k = (case map_of gs k of None \<Rightarrow> grupo_nuevo | Some g \<Rightarrow> g)"

definition farmacias_conocidas :: "string list" where
  "farmacias_conocidas =
     [''DosFarma'', ''FarmaciasDirect'', ''PromoFarma'', ''Atida'', ''FarmaciasVazquez'']"

definition py_truthy :: "bool option \<Rightarrow> bool" where
  \<comment> \<open>The truth value of \<open>en_stock\<close>: \<open>None\<close> and \<open>False\<close> are false.\<close>
  "py_truthy b = (b = Some True)"

definition guardar_ref :: "row \<Rightarrow> grupo \<Rightarrow> grupo" where
  \<comment> \<open>Lines 103 to 106: the reference name and the reference EAN. In the branch
      \<open>es_ean\<close> the value \<open>ean\<close> is a string, which \<open>py_str\<close> returns as it is.\<close>
  "guardar_ref r g =
     (let g1 = (if nombre_ref g = [] \<or> length (nombre r) > length (nombre_ref g)
                then g\<lparr>nombre_ref := nombre r\<rparr> else g)
      in if is_valid_ean (ean r) then g1\<lparr>ean_ref := py_str (ean r)\<rparr> else g1)"

definition guardar_farmacia :: "row \<Rightarrow> grupo \<Rightarrow> grupo" where
  \<comment> \<open>Lines 109 to 116: the entry of the row's pharmacy.\<close>
  "guardar_farmacia r g =
     (if farmacia r \<in> set farmacias_conocidas then
        (case precio r of
           None \<Rightarrow> g
         | Some p \<Rightarrow>
             (if (case precios g (farmacia r) of
                    None \<Rightarrow> True
                  | Some precio_actual \<Rightarrow> py_truthy (en_stock r) \<and> p < precio_actual)
              then g\<lparr>precios := (precios g)(farmacia r \<mapsto> p),
                     urls := (urls g)(farmacia r \<mapsto> url r),
                     stocks := (stocks g)(farmacia r \<mapsto> en_stock r)\<rparr>
              else g))
      else g)"

definition procesar_row :: "row \<Rightarrow> grupos \<Rightarrow> grupos" where
  \<comment> \<open>The body of \<open>for row in rows\<close>.\<close>
  "procesar_row r gs =
     (let k = match_key (ean r) (nombre r)
      in AList.update k (guardar_farmacia r (guardar_ref r (grupos_get gs k))) gs)"

definition procesar_rows :: "row list \<Rightarrow> grupos \<Rightarrow> grupos" where
  "procesar_rows rows gs = foldl (\<lambda>g r. procesar_row r g) gs rows"

definition entrada :: "grupo \<Rightarrow> string \<Rightarrow> rat option \<times> string option \<times> bool option option" where
  \<comment> \<open>What a group holds for one pharmacy: price, URL and stock flag.\<close>
  "entrada g f = (precios g f, urls g f, stocks g f)"

definition ean_ref_es_clave :: "grupos \<Rightarrow> bool" where
  \<comment> \<open>Invariant of the loop: a reference EAN that is set is its group's key.\<close>
  "ean_ref_es_clave gs = (\<forall>k. ean_ref (grupos_get gs k) = [] \<or> ean_ref (grupos_get gs k) = k)"

section \<open>The paged driver\<close>

definition fetch :: "row list \<Rightarrow> nat \<Rightarrow> nat \<Rightarrow> row list" where
  \<comment> \<open>\<open>LIMIT :limit OFFSET :offset\<close> on the query's rows in \<open>p.id\<close> order.\<close>
  "fetch db limit offset = take limit (drop offset db)"

text \<open>
  The \<open>while\<close> loop. Its state is the offset, the counter \<open>procesados\<close>, the groups
  and, as a trace of the calls of \<open>con.execute\<close>, the number of rows each fetched page
  returned. An empty page ends the loop, which is why a page size of 0 terminates too.
\<close>

function paginar ::
  "nat \<Rightarrow> nat \<Rightarrow> row list \<Rightarrow> nat \<Rightarrow> nat \<Rightarrow> grupos \<Rightarrow> nat list \<Rightarrow> grupos \<times> nat \<times> nat list" where
  "paginar batch_size total_rows db offset procesados gs paginas =
     (if offset < total_rows then
        (if fetch db batch_size offset = [] then (gs, procesados, paginas @ [0])
         else paginar batch_size total_rows db (offset + batch_size)
                (procesados + length (fetch db batch_size offset))
                (procesar_rows (fetch db batch_size offset) gs)
                (paginas @ [length (fetch db batch_size offset)]))
      else (gs, procesados, paginas))"
  by pat_completeness auto
termination
proof (relation "measure (\<lambda>(b, t, d, off, p, g, l). t - off)")
  show "wf (measure (\<lambda>(b, t, d, off, p, g, l). t - off))" by simp
next
  fix batch_size total_rows :: nat and db :: "row list" and offset procesados :: nat
    and gs :: grupos and paginas :: "nat list"
  assume lt: "offset < total_rows" and ne: "fetch db batch_size offset \<noteq> []"
  from ne have "batch_size \<noteq> 0" by (auto simp: fetch_def)
  with lt show "((batch_size, total_rows, db, offset + batch_size,
                  procesados + length (fetch db batch_size offset),
                  procesar_rows (fetch db batch_size offset) gs,
                  paginas @ [length (fetch db batch_size offset)]),
                 (batch_size, total_rows, db, offset, procesados, gs, paginas))
                \<in> measure (\<lambda>(b, t, d, off, p, g, l). t - off)"
    by simp
qed

declare paginar.simps [simp del]

definition agregar :: "nat \<Rightarrow> row list \<Rightarrow> grupos \<times> nat \<times> nat list" where
  \<comment> \<open>Steps 1 and 2 of \<open>main\<close> with the page size as a parameter: the count, then the
      loop from offset 0 over empty groups.\<close>
  "agregar batch_size db = paginar batch_size (length db) db 0 0 [] []"

section \<open>The consolidated table\<close>

datatype si_no = Si | No

record fila =
  Producto :: string
  EAN :: string
  columnas :: "(string \<times> rat option \<times> si_no \<times> string) list"
  Precio_Min :: "rat option"
  Precio_Max :: "rat option"
  Ahorro_EUR :: rat

definition py_round2 :: "rat \<Rightarrow> rat" where
  \<comment> \<open>\<open>round(x, 2)\<close>: to the nearest hundredth, a tie to the even one.\<close>
  "py_round2 x =
     (let y = x * 100; n = \<lfloor>y\<rfloor>; d = y - of_int n
      in (if d < 1 / 2 then of_int n
          else if 1 / 2 < d then of_int (n + 1)
          else if even n then of_int n else of_int (n + 1)) / 100)"

definition py_min :: "rat \<Rightarrow> rat list \<Rightarrow> rat" where
  \<comment> \<open>\<open>min\<close> of a non-empty list, given as its head and tail.\<close>
  "py_min p ps = foldl (\<lambda>m x. if x < m then x else m) p ps"

definition py_max :: "rat \<Rightarrow> rat list \<Rightarrow> rat" where
  "py_max p ps = foldl (\<lambda>m x. if m < x then x else m) p ps"

definition columna :: "grupo \<Rightarrow> string \<Rightarrow> string \<times> rat option \<times> si_no \<times> string" where
  \<comment> \<open>The three cells of one pharmacy: \<open>precios.get(f, None)\<close>, the stock flag as
      text, \<open>urls.get(f, "")\<close>.\<close>
  "columna g f =
     (f, precios g f,
      (if (case stocks g f of None \<Rightarrow> False | Some b \<Rightarrow> py_truthy b) then Si else No),
      (case urls g f of None \<Rightarrow> [] | Some u \<Rightarrow> u))"

definition precios_validos :: "grupo \<Rightarrow> rat list" where
  \<comment> \<open>The prices of the pharmacies whose cell says in stock, in the list's order.\<close>
  "precios_validos g =
     List.map_filter (\<lambda>(f, p, s, u). if s = Si then p else None)
       (map (columna g) farmacias_conocidas)"

definition fila_de :: "grupo \<Rightarrow> fila" where
  "fila_de g =
     (case precios_validos g of
        [] \<Rightarrow>
          \<lparr>Producto = nombre_ref g, EAN = ean_ref g,
           columnas = map (columna g) farmacias_conocidas,
           Precio_Min = None, Precio_Max = None, Ahorro_EUR = 0\<rparr>
      | p # ps \<Rightarrow>
          \<lparr>Producto = nombre_ref g, EAN = ean_ref g,
           columnas = map (columna g) farmacias_conocidas,
           Precio_Min = Some (py_min p ps), Precio_Max = Some (py_max p ps),
           Ahorro_EUR = py_round2 (py_max p ps - py_min p ps)\<rparr>)"

definition clave_orden :: "fila \<Rightarrow> rat" where
  \<comment> \<open>\<open>x['Ahorro_EUR'] or -1\<close>\<close>
  "clave_orden x = (if Ahorro_EUR x = 0 then - 1 else Ahorro_EUR x)"

definition tabla_final :: "grupos \<Rightarrow> fila list" where
  \<comment> \<open>One row per item of \<open>grupos\<close>, then the stable sort by descending key.\<close>
  "tabla_final gs = sort_key (\<lambda>x. - clave_orden x) (map (\<lambda>(k, g). fila_de g) gs)"

definition main :: "row list \<Rightarrow> fila list option" where
  \<comment> \<open>\<open>main\<close> up to the table it hands to the Excel writer; \<open>None\<close> is the early
      return on an empty database.\<close>
  "main db =
     (if length db = 0 then None
      else (case agregar 10000 db of
              (gs, procesados, paginas) \<Rightarrow> Some (tabla_final gs)))"

section \<open>The selection of consolidar.py\<close>

text \<open>
  consolidar.py picks the entry of a (key, pharmacy) pair with
  \<open>sort_values(by=['en_stock', 'precio'], ascending=[False, True])\<close> followed by
  \<open>drop_duplicates(subset=['match_key', 'farmacia'], keep='first')\<close>. The sort is
  the stable lexicographic one, written as a stable sort by the last key and then by the
  first, with null values last in each column.
\<close>

definition orden_stock :: "bool option \<Rightarrow> nat" where
  \<comment> \<open>\<open>en_stock\<close> descending: true, false, null.\<close>
  "orden_stock b = (case b of Some True \<Rightarrow> 0 | Some False \<Rightarrow> 1 | None \<Rightarrow> 2)"

definition orden_nulo :: "rat option \<Rightarrow> nat" where
  \<comment> \<open>A missing price after every price.\<close>
  "orden_nulo p = (case p of None \<Rightarrow> 1 | Some x \<Rightarrow> 0)"

definition orden_precio :: "rat option \<Rightarrow> rat" where
  "orden_precio p = (case p of None \<Rightarrow> 0 | Some x \<Rightarrow> x)"

definition sort_values :: "row list \<Rightarrow> row list" where
  "sort_values df =
     sort_key (\<lambda>r. orden_stock (en_stock r))
       (sort_key (\<lambda>r. orden_nulo (precio r)) (sort_key (\<lambda>r. orden_precio (precio r)) df))"

fun drop_duplicates :: "(string \<times> string) list \<Rightarrow> row list \<Rightarrow> row list" where
  \<comment> \<open>\<open>keep='first'\<close>; the first argument holds the pairs already seen.\<close>
  "drop_duplicates vistos [] = []"
| "drop_duplicates vistos (r # df) =
     (if (match_key (ean r) (nombre r), farmacia r) \<in> set vistos
      then drop_duplicates vistos df
      else r # drop_duplicates ((match_key (ean r) (nombre r), farmacia r) # vistos) df)"

definition best_per_pharmacy :: "row list \<Rightarrow> row list" where
  "best_per_pharmacy df = drop_duplicates [] (sort_values df)"

section \<open>Sample observations\<close>

text \<open>Rows of one product at the pharmacy Atida, and rows that share a valid EAN.\<close>

definition obs_agotada :: row where
  "obs_agotada =
     \<lparr>p_id = 1, farmacia = ''Atida'', nombre = ''Paracetamol'', url = ''https://a/1'',
      ean = None, precio = Some 4, en_stock = Some False\<rparr>"

definition obs_en_stock :: row where
  "obs_en_stock =
     \<lparr>p_id = 2, farmacia = ''Atida'', nombre = ''Paracetamol'', url = ''https://a/2'',
      ean = None, precio = Some 5, en_stock = Some True\<rparr>"

definition obs_oferta :: row where
  "obs_oferta =
     \<lparr>p_id = 3, farmacia = ''Atida'', nombre = ''Paracetamol'', url = ''https://a/3'',
      ean = None, precio = Some (9 / 2), en_stock = Some True\<rparr>"

definition obs_dosfarma :: row where
  "obs_dosfarma =
     \<lparr>p_id = 4, farmacia = ''DosFarma'', nombre = ''Paracetamol'', url = ''https://d/4'',
      ean = None, precio = Some 5, en_stock = Some True\<rparr>"

definition obs_crema :: row where
  "obs_crema =
     \<lparr>p_id = 5, farmacia = ''DosFarma'', nombre = ''Crema X 50ml'', url = ''https://d/5'',
      ean = Some ''8412345678901'', precio = Some 12, en_stock = Some True\<rparr>"

definition obs_crema_atida :: row where
  "obs_crema_atida =
     \<lparr>p_id = 6, farmacia = ''Atida'', nombre = ''CREMA X 50 ML'', url = ''https://a/6'',
      ean = Some ''8412345678901'', precio = Some 11, en_stock = Some True\<rparr>"

definition obs_sin_precio :: row where
  "obs_sin_precio =
     \<lparr>p_id = 7, farmacia = ''Atida'', nombre = ''Crema X 50ml'', url = ''https://a/7'',
      ean = Some ''8412345678901'', precio = None, en_stock = Some True\<rparr>"

definition obs_sin_url :: row where
  "obs_sin_url =
     \<lparr>p_id = 8, farmacia = ''Atida'', nombre = ''Paracetamol'', url = [],
      ean = None, precio = Some 3, en_stock = Some True\<rparr>"

definition obs_promofarma :: row where
  "obs_promofarma =
     \<lparr>p_id = 9, farmacia = ''PromoFarma'', nombre = ''Paracetamol'', url = ''https://p/9'',
      ean = None, precio = Some (9 / 2), en_stock = Some True\<rparr>"

definition grupo_abc :: grupo where
  \<comment> \<open>One product at three pharmacies: in stock at 5 and at 4.50, out of stock at 4.\<close>
  "grupo_abc =
     grupos_get (procesar_rows [obs_dosfarma, obs_agotada, obs_promofarma] [])
       ''NAME_paracetamol''"

section \<open>The EAN test\<close>

lemma digit_not_space: "py_isdigit c \<Longrightarrow> \<not> py_isspace c"
  by (auto simp: py_isdigit_def py_isspace_def Let_def)

lemma py_strip_unique:
  assumes "list_all py_isspace a" and "list_all py_isspace b" and "d \<noteq> []"
    and "\<not> py_isspace (hd d)" and "\<not> py_isspace (last d)"
  shows "py_strip (a @ d @ b) = d"
proof -
  have hd_part: "dropWhile py_isspace (a @ d @ b) = d @ b"
    using assms by (cases d) (auto simp: list_all_iff dropWhile_append)
  have tl_part: "dropWhile py_isspace (rev b @ rev d) = rev d"
    using assms by (cases "rev d") (auto simp: list_all_iff dropWhile_append last_rev hd_rev)
  show ?thesis by (simp add: py_strip_def hd_part tl_part)
qed

lemma py_strip_decomp:
  "\<exists>a b. s = a @ py_strip s @ b \<and> list_all py_isspace a \<and> list_all py_isspace b"
proof -
  let ?t = "dropWhile py_isspace s"
  have "s = takeWhile py_isspace s @ ?t" by simp
  moreover have "rev ?t = takeWhile py_isspace (rev ?t) @ dropWhile py_isspace (rev ?t)" by simp
  then have "?t = py_strip s @ rev (takeWhile py_isspace (rev ?t))"
    unfolding py_strip_def by (metis rev_append rev_rev_ident)
  moreover have "list_all py_isspace (takeWhile py_isspace s)"
    by (simp add: list_all_iff) (meson set_takeWhileD)
  moreover have "list_all py_isspace (rev (takeWhile py_isspace (rev ?t)))"
    by (simp add: list_all_iff) (meson set_takeWhileD)
  ultimately show ?thesis by metis
qed

text \<open>
  C6, as the claim states it, fails: the test strips the string first, so a digit run
  with leading whitespace is accepted although it contains a non-digit character, and
  so is a string of length 15 made of 14 digits and a trailing blank.
\<close>

theorem is_valid_ean_whitespace_counterexample:
  "is_valid_ean (Some '' 1234567'') \<and> \<not> spec_is_valid_ean (Some '' 1234567'')
   \<and> is_valid_ean (Some ''12345678901234 '') \<and> length ''12345678901234 '' = 15"
  by code_simp

text \<open>
  C6, amended: \<open>is_valid_ean\<close> is true exactly for the non-null strings that are a run of
  7 to 14 digits (characters of \<open>str.isdigit\<close>) between optional leading and trailing
  whitespace; every other input, the null one included, gives false.
\<close>

theorem is_valid_ean_iff:
  "is_valid_ean e =
     (\<exists>a d b. e = Some (a @ d @ b) \<and> list_all py_isspace a \<and> list_all py_isspace b
        \<and> list_all py_isdigit d \<and> 7 \<le> length d \<and> length d \<le> 14)"
proof
  assume v: "is_valid_ean e"
  then obtain s where s: "e = Some s" by (cases e) (auto simp: is_valid_ean_def)
  from v s have d: "list_all py_isdigit (py_strip s)" "7 \<le> length (py_strip s)"
    "length (py_strip s) \<le> 14"
    by (auto simp: is_valid_ean_def py_str_isdigit_def Let_def)
  from py_strip_decomp [of s] obtain a b where
    "s = a @ py_strip s @ b" "list_all py_isspace a" "list_all py_isspace b" by blast
  with s d show "\<exists>a d b. e = Some (a @ d @ b) \<and> list_all py_isspace a \<and> list_all py_isspace b
        \<and> list_all py_isdigit d \<and> 7 \<le> length d \<and> length d \<le> 14"
    by blast
next
  assume "\<exists>a d b. e = Some (a @ d @ b) \<and> list_all py_isspace a \<and> list_all py_isspace b
        \<and> list_all py_isdigit d \<and> 7 \<le> length d \<and> length d \<le> 14"
  then obtain a d b where e: "e = Some (a @ d @ b)" and a: "list_all py_isspace a"
    and b: "list_all py_isspace b" and d: "list_all py_isdigit d"
    and len: "7 \<le> length d" "length d \<le> 14" by blast
  from len have ne: "d \<noteq> []" by auto
  with d have "py_isdigit (hd d)" "py_isdigit (last d)" by (auto simp: list_all_iff)
  then have "\<not> py_isspace (hd d)" "\<not> py_isspace (last d)" by (auto dest: digit_not_space)
  with a b ne have "py_strip (a @ d @ b) = d" by (rule py_strip_unique)
  with e d len ne show "is_valid_ean e"
    by (simp add: is_valid_ean_def py_str_isdigit_def)
qed

section \<open>The match key\<close>

text \<open>
  C7: the key of a row is a function of its EAN and name alone. When the EAN passes
  \<open>is_valid_ean\<close> the key is the EAN string as it stands; otherwise it is the prefix
  \<open>NAME_\<close> followed by the cleaned name; and the EAN \<open>abc123\<close> with the name
  \<open>Vitamina C 1000mg\<close> gives \<open>NAME_vitamina c 1000mg\<close>.
\<close>

theorem match_key_resolve:
  "(\<forall>s. e = Some s \<and> is_valid_ean e \<longrightarrow> match_key e nm = s)
   \<and> (\<not> is_valid_ean e \<longrightarrow> match_key e nm = ''NAME_'' @ clean_name nm)
   \<and> match_key (Some ''abc123'') ''Vitamina C 1000mg'' = ''NAME_vitamina c 1000mg''"
proof (intro conjI)
  show "\<forall>s. e = Some s \<and> is_valid_ean e \<longrightarrow> match_key e nm = s"
    by (auto simp: match_key_def py_str_def)
  show "\<not> is_valid_ean e \<longrightarrow> match_key e nm = ''NAME_'' @ clean_name nm"
    by (simp add: match_key_def)
  show "match_key (Some ''abc123'') ''Vitamina C 1000mg'' = ''NAME_vitamina c 1000mg''"
    by code_simp
qed

theorem match_key_resolve_witness:
  "is_valid_ean (Some ''8412345678901'')
   \<and> match_key (Some ''8412345678901'') ''Crema X 50ml'' = ''8412345678901''
   \<and> \<not> is_valid_ean None
   \<and> match_key None ''CREMA X 50 ML'' = ''NAME_crema x 50 ml''"
proof -
  have v: "is_valid_ean (Some ''8412345678901'')" by code_simp
  have n: "\<not> is_valid_ean None" by (simp add: is_valid_ean_def)
  have c: "clean_name ''CREMA X 50 ML'' = ''crema x 50 ml''" by code_simp
  from match_key_resolve [of "Some ''8412345678901''" "''Crema X 50ml''"] v
  have "match_key (Some ''8412345678901'') ''Crema X 50ml'' = ''8412345678901''" by simp
  moreover from match_key_resolve [of None "''CREMA X 50 ML''"] n c
  have "match_key None ''CREMA X 50 ML'' = ''NAME_crema x 50 ml''" by simp
  ultimately show ?thesis using v n by simp
qed

section \<open>Evaluating the sample observations\<close>

lemma key_paracetamol: "match_key None ''Paracetamol'' = ''NAME_paracetamol''"
  by code_simp

lemma valid_crema: "is_valid_ean (Some ''8412345678901'')"
  by code_simp

lemma key_crema: "match_key (Some ''8412345678901'') nm = ''8412345678901''"
  by (simp add: match_key_def valid_crema py_str_def)

lemma not_valid_None: "\<not> is_valid_ean None"
  by (simp add: is_valid_ean_def)

lemmas obs_defs =
  obs_agotada_def obs_en_stock_def obs_oferta_def obs_dosfarma_def obs_crema_def
  obs_crema_atida_def obs_sin_precio_def obs_sin_url_def obs_promofarma_def

lemmas pandas_eval =
  best_per_pharmacy_def sort_values_def orden_stock_def orden_nulo_def orden_precio_def
  key_paracetamol

lemmas agregar_eval =
  procesar_rows_def procesar_row_def grupos_get_def grupo_nuevo_def guardar_ref_def
  guardar_farmacia_def farmacias_conocidas_def entrada_def py_truthy_def
  key_paracetamol key_crema valid_crema not_valid_None py_str_def

section \<open>The update of one pharmacy's entry\<close>

lemma grupos_get_procesar_row:
  "grupos_get (procesar_row r gs) k =
     (if k = match_key (ean r) (nombre r)
      then guardar_farmacia r (guardar_ref r (grupos_get gs k)) else grupos_get gs k)"
  by (simp add: procesar_row_def grupos_get_def update_conv' Let_def)

lemma entrada_guardar_ref: "entrada (guardar_ref r g) f = entrada g f"
  by (simp add: guardar_ref_def entrada_def Let_def)

lemma precios_guardar_ref: "precios (guardar_ref r g) = precios g"
  by (simp add: guardar_ref_def Let_def)

lemma guardar_farmacia_price:
  assumes "precios g f = Some p"
  shows "\<exists>q. precios (guardar_farmacia r g) f = Some q \<and> q \<le> p
           \<and> (entrada (guardar_farmacia r g) f \<noteq> entrada g f \<longrightarrow> q < p)"
  using assms
  by (auto simp: guardar_farmacia_def entrada_def split: option.splits)

lemma procesar_row_price:
  assumes "precios (grupos_get gs k) f = Some p"
  shows "\<exists>q. precios (grupos_get (procesar_row r gs) k) f = Some q \<and> q \<le> p
           \<and> (entrada (grupos_get (procesar_row r gs) k) f \<noteq> entrada (grupos_get gs k) f \<longrightarrow> q < p)"
proof (cases "k = match_key (ean r) (nombre r)")
  case True
  from assms have "precios (guardar_ref r (grupos_get gs k)) f = Some p"
    by (simp add: precios_guardar_ref)
  from guardar_farmacia_price [OF this, of r] True show ?thesis
    by (simp add: grupos_get_procesar_row entrada_guardar_ref)
next
  case False
  with assms show ?thesis by (simp add: grupos_get_procesar_row)
qed

lemma procesar_rows_price:
  "precios (grupos_get gs k) f = Some p \<Longrightarrow>
   \<exists>q. precios (grupos_get (procesar_rows rows gs) k) f = Some q \<and> q \<le> p"
proof (induction rows arbitrary: gs p)
  case Nil
  then show ?case by (simp add: procesar_rows_def)
next
  case (Cons r rows)
  from procesar_row_price [OF Cons.prems, of r] obtain q where
    q: "precios (grupos_get (procesar_row r gs) k) f = Some q" "q \<le> p" by blast
  from Cons.IH [OF q(1)] obtain q' where
    "precios (grupos_get (procesar_rows rows (procesar_row r gs)) k) f = Some q'" "q' \<le> q" by blast
  with q(2) show ?case by (auto simp: procesar_rows_def)
qed

text \<open>
  C10: the price a group stores for a pharmacy never increases as further rows are
  processed, and a row that changes an existing entry (price, URL or stock flag)
  strictly lowers its price.
\<close>

theorem stored_price_never_increases:
  assumes "precios (grupos_get gs k) f = Some p"
  shows "(\<exists>q. precios (grupos_get (procesar_rows rows gs) k) f = Some q \<and> q \<le> p)
    \<and> (\<forall>r. entrada (grupos_get (procesar_row r gs) k) f \<noteq> entrada (grupos_get gs k) f
          \<longrightarrow> (\<exists>q. precios (grupos_get (procesar_row r gs) k) f = Some q \<and> q < p))"
  using procesar_rows_price [OF assms] procesar_row_price [OF assms] by blast

theorem stored_price_never_increases_witness:
  "precios (grupos_get (procesar_rows [obs_en_stock] []) ''NAME_paracetamol'') ''Atida'' = Some 5
   \<and> precios (grupos_get (procesar_rows [obs_oferta, obs_agotada] (procesar_rows [obs_en_stock] []))
        ''NAME_paracetamol'') ''Atida'' = Some (9 / 2)
   \<and> entrada (grupos_get (procesar_row obs_oferta (procesar_rows [obs_en_stock] [])) ''NAME_paracetamol'') ''Atida''
       \<noteq> entrada (grupos_get (procesar_rows [obs_en_stock] []) ''NAME_paracetamol'') ''Atida''
   \<and> (\<exists>q. precios (grupos_get (procesar_row obs_oferta (procesar_rows [obs_en_stock] []))
        ''NAME_paracetamol'') ''Atida'' = Some q \<and> q < 5)"
proof -
  have h: "precios (grupos_get (procesar_rows [obs_en_stock] []) ''NAME_paracetamol'') ''Atida'' = Some 5"
    by (simp add: obs_defs agregar_eval)
  have v: "precios (grupos_get (procesar_rows [obs_oferta, obs_agotada] (procesar_rows [obs_en_stock] []))
        ''NAME_paracetamol'') ''Atida'' = Some (9 / 2)"
    by (simp add: obs_defs agregar_eval)
  have c: "entrada (grupos_get (procesar_row obs_oferta (procesar_rows [obs_en_stock] [])) ''NAME_paracetamol'') ''Atida''
       \<noteq> entrada (grupos_get (procesar_rows [obs_en_stock] []) ''NAME_paracetamol'') ''Atida''"
    by (simp add: obs_defs agregar_eval)
  from stored_price_never_increases [OF h, of "[obs_oferta, obs_agotada]"] c v h
  show ?thesis by blast
qed

section \<open>The reference EAN\<close>

lemma ean_ref_guardar_farmacia: "ean_ref (guardar_farmacia r g) = ean_ref g"
  by (simp add: guardar_farmacia_def split: option.splits)

lemma ean_ref_guardar_ref:
  "ean_ref (guardar_ref r g) = (if is_valid_ean (ean r) then py_str (ean r) else ean_ref g)"
  by (simp add: guardar_ref_def Let_def)

lemma ean_ref_procesar_row:
  "ean_ref (grupos_get (procesar_row r gs) k) =
     (if is_valid_ean (ean r) \<and> k = py_str (ean r) then k else ean_ref (grupos_get gs k))"
  by (auto simp: grupos_get_procesar_row ean_ref_guardar_farmacia ean_ref_guardar_ref match_key_def)

lemma ean_ref_es_clave_empty: "ean_ref_es_clave []"
  by (simp add: ean_ref_es_clave_def grupos_get_def grupo_nuevo_def)

lemma ean_ref_es_clave_step: "ean_ref_es_clave gs \<Longrightarrow> ean_ref_es_clave (procesar_row r gs)"
  unfolding ean_ref_es_clave_def by (simp add: ean_ref_procesar_row)

lemma ean_ref_es_clave_rows: "ean_ref_es_clave gs \<Longrightarrow> ean_ref_es_clave (procesar_rows rows gs)"
  unfolding procesar_rows_def
  by (induction rows arbitrary: gs) (simp_all add: ean_ref_es_clave_step)

lemma ean_ref_kept_rows:
  "ean_ref_es_clave gs \<Longrightarrow> ean_ref (grupos_get gs k) \<noteq> [] \<Longrightarrow>
   ean_ref (grupos_get (procesar_rows rows gs) k) = ean_ref (grupos_get gs k)"
proof (induction rows arbitrary: gs)
  case Nil
  then show ?case by (simp add: procesar_rows_def)
next
  case (Cons r rows)
  from Cons.prems have k: "ean_ref (grupos_get gs k) = k"
    by (auto simp: ean_ref_es_clave_def)
  then have step: "ean_ref (grupos_get (procesar_row r gs) k) = ean_ref (grupos_get gs k)"
    by (simp add: ean_ref_procesar_row)
  with Cons.prems have "ean_ref (grupos_get (procesar_rows rows (procesar_row r gs)) k)
      = ean_ref (grupos_get (procesar_row r gs) k)"
    by (intro Cons.IH ean_ref_es_clave_step) simp_all
  with step show ?case by (simp add: procesar_rows_def)
qed

text \<open>
  C5: once a group's reference EAN is set, it keeps that value whatever rows follow,
  rows with a valid EAN under the same key included: such a row's EAN is the key itself,
  so the assignment writes the value that is already there.
\<close>

theorem ean_ref_first_kept:
  assumes "ean_ref (grupos_get (procesar_rows rows1 []) k) \<noteq> []"
  shows "ean_ref (grupos_get (procesar_rows rows2 (procesar_rows rows1 [])) k)
           = ean_ref (grupos_get (procesar_rows rows1 []) k)
    \<and> (\<forall>r. is_valid_ean (ean r) \<and> match_key (ean r) (nombre r) = k \<longrightarrow> ean r = Some k)"
proof (intro conjI allI impI)
  from assms show "ean_ref (grupos_get (procesar_rows rows2 (procesar_rows rows1 [])) k)
           = ean_ref (grupos_get (procesar_rows rows1 []) k)"
    by (intro ean_ref_kept_rows ean_ref_es_clave_rows ean_ref_es_clave_empty)
next
  fix r
  assume "is_valid_ean (ean r) \<and> match_key (ean r) (nombre r) = k"
  then show "ean r = Some k"
    by (cases "ean r") (auto simp: match_key_def py_str_def is_valid_ean_def)
qed

theorem ean_ref_first_kept_witness:
  "ean_ref (grupos_get (procesar_rows [obs_crema] []) ''8412345678901'') = ''8412345678901''
   \<and> is_valid_ean (ean obs_crema_atida)
   \<and> match_key (ean obs_crema_atida) (nombre obs_crema_atida) = ''8412345678901''
   \<and> ean obs_crema_atida = Some ''8412345678901''
   \<and> ean_ref (grupos_get (procesar_rows [obs_crema_atida, obs_sin_precio] (procesar_rows [obs_crema] []))
        ''8412345678901'') = ''8412345678901''"
proof -
  have h: "ean_ref (grupos_get (procesar_rows [obs_crema] []) ''8412345678901'') = ''8412345678901''"
    by (simp add: obs_defs agregar_eval)
  have v: "is_valid_ean (ean obs_crema_atida)"
    by (simp add: obs_defs valid_crema)
  have k: "match_key (ean obs_crema_atida) (nombre obs_crema_atida) = ''8412345678901''"
    by (simp add: obs_defs agregar_eval)
  from h have ne: "ean_ref (grupos_get (procesar_rows [obs_crema] []) ''8412345678901'') \<noteq> []"
    by simp
  from ean_ref_first_kept [OF ne, of "[obs_crema_atida, obs_sin_precio]"]
  have kept: "ean_ref (grupos_get (procesar_rows [obs_crema_atida, obs_sin_precio]
        (procesar_rows [obs_crema] [])) ''8412345678901'')
      = ean_ref (grupos_get (procesar_rows [obs_crema] []) ''8412345678901'')"
    and same: "\<forall>r. is_valid_ean (ean r) \<and> match_key (ean r) (nombre r) = ''8412345678901''
      \<longrightarrow> ean r = Some ''8412345678901''"
    by blast+
  from same v k have "ean obs_crema_atida = Some ''8412345678901''" by blast
  with kept h v k show ?thesis by simp
qed

section \<open>Rows without a price or a URL\<close>

lemma entrada_procesar_row_sin_precio:
  "precio r = None \<Longrightarrow> entrada (grupos_get (procesar_row r gs) k) f = entrada (grupos_get gs k) f"
  by (simp add: grupos_get_procesar_row guardar_farmacia_def entrada_guardar_ref)

text \<open>
  C8, as the claim states it, fails: a row with a null price still creates its group and
  sets the reference name and the reference EAN, and a row with an empty URL is stored
  like any other.
\<close>

theorem null_price_not_discarded_counterexample:
  "precio obs_sin_precio = None
   \<and> nombre_ref (grupos_get [] ''8412345678901'') = []
   \<and> ean_ref (grupos_get [] ''8412345678901'') = []
   \<and> map fst (procesar_row obs_sin_precio []) = [''8412345678901'']
   \<and> nombre_ref (grupos_get (procesar_row obs_sin_precio []) ''8412345678901'') = ''Crema X 50ml''
   \<and> ean_ref (grupos_get (procesar_row obs_sin_precio []) ''8412345678901'') = ''8412345678901''
   \<and> url obs_sin_url = []
   \<and> entrada (grupos_get (procesar_row obs_sin_url []) ''NAME_paracetamol'') ''Atida''
       = (Some 3, Some [], Some (Some True))"
  by (simp add: obs_defs agregar_eval)

text \<open>
  C8, amended: a row with a null price leaves the entry (price, URL, stock flag) of every
  pharmacy in every group as it was, and leaves every group but its own untouched.
\<close>

theorem null_price_keeps_entries:
  assumes "precio r = None"
  shows "entrada (grupos_get (procesar_row r gs) k) f = entrada (grupos_get gs k) f
    \<and> (k \<noteq> match_key (ean r) (nombre r) \<longrightarrow> grupos_get (procesar_row r gs) k = grupos_get gs k)"
proof (intro conjI)
  from assms show "entrada (grupos_get (procesar_row r gs) k) f = entrada (grupos_get gs k) f"
    by (rule entrada_procesar_row_sin_precio)
  show "k \<noteq> match_key (ean r) (nombre r) \<longrightarrow> grupos_get (procesar_row r gs) k = grupos_get gs k"
    by (simp add: grupos_get_procesar_row)
qed

theorem null_price_keeps_entries_witness:
  "precio obs_sin_precio = None
   \<and> entrada (grupos_get (procesar_row obs_sin_precio (procesar_rows [obs_crema_atida] [])) ''8412345678901'') ''Atida''
      = (Some 11, Some ''https://a/6'', Some (Some True))"
proof -
  have h: "precio obs_sin_precio = None" by (simp add: obs_sin_precio_def)
  have e: "entrada (grupos_get (procesar_rows [obs_crema_atida] []) ''8412345678901'') ''Atida''
      = (Some 11, Some ''https://a/6'', Some (Some True))"
    by (simp add: obs_defs agregar_eval)
  from null_price_keeps_entries [OF h, of "procesar_rows [obs_crema_atida] []" "''8412345678901''" "''Atida''"] e h
  show ?thesis by simp
qed

section \<open>Which observation a pharmacy's entry keeps\<close>

text \<open>
  C1 at the stored out-of-stock observation of price 4 and the incoming in-stock one of
  price 5, same key and pharmacy: the entry of consolidar_visible.py stays the
  out-of-stock one, where the selection of consolidar.py is the in-stock one.
\<close>

theorem in_stock_does_not_replace_cheaper_out_of_stock:
  "entrada (grupos_get (procesar_rows [obs_agotada] []) ''NAME_paracetamol'') ''Atida''
     = (Some 4, Some ''https://a/1'', Some (Some False))
   \<and> en_stock obs_en_stock = Some True
   \<and> match_key (ean obs_en_stock) (nombre obs_en_stock) = ''NAME_paracetamol''
   \<and> entrada (grupos_get (procesar_row obs_en_stock (procesar_rows [obs_agotada] [])) ''NAME_paracetamol'') ''Atida''
     = (Some 4, Some ''https://a/1'', Some (Some False))
   \<and> best_per_pharmacy [obs_agotada, obs_en_stock] = [obs_en_stock]"
proof -
  have "best_per_pharmacy [obs_agotada, obs_en_stock] = [obs_en_stock]"
    by (simp add: pandas_eval obs_defs)
  then show ?thesis by (simp add: obs_defs agregar_eval)
qed

text \<open>
  C2 at the same two observations: fed to consolidar_visible.py in the two possible
  orders they leave different (price, stock) pairs in the entry, where the selection of
  consolidar.py is the same for both orders.
\<close>

theorem aggregation_depends_on_order:
  "entrada (grupos_get (procesar_rows [obs_agotada, obs_en_stock] []) ''NAME_paracetamol'') ''Atida''
     = (Some 4, Some ''https://a/1'', Some (Some False))
   \<and> entrada (grupos_get (procesar_rows [obs_en_stock, obs_agotada] []) ''NAME_paracetamol'') ''Atida''
     = (Some 5, Some ''https://a/2'', Some (Some True))
   \<and> best_per_pharmacy [obs_agotada, obs_en_stock] = best_per_pharmacy [obs_en_stock, obs_agotada]"
proof -
  have "best_per_pharmacy [obs_agotada, obs_en_stock] = best_per_pharmacy [obs_en_stock, obs_agotada]"
    by (simp add: pandas_eval obs_defs)
  then show ?thesis by (simp add: obs_defs agregar_eval)
qed

section \<open>Paging\<close>

lemma fetch_nonempty: "0 < b \<Longrightarrow> off < length db \<Longrightarrow> fetch db b off \<noteq> []"
  by (simp add: fetch_def)

lemma procesar_rows_append:
  "procesar_rows (xs @ ys) gs = procesar_rows ys (procesar_rows xs gs)"
  by (simp add: procesar_rows_def)

lemma procesar_rows_fetch:
  "procesar_rows (drop (off + b) db) (procesar_rows (fetch db b off) gs) = procesar_rows (drop off db) gs"
proof -
  have "fetch db b off @ drop (off + b) db = drop off db"
    by (simp add: fetch_def add.commute [of off b] flip: drop_drop)
  then show ?thesis by (metis procesar_rows_append)
qed

lemma paginar_state:
  "0 < b \<Longrightarrow> fst (paginar b (length db) db off pr gs pg) = procesar_rows (drop off db) gs"
proof (induction b "length db" db off pr gs pg rule: paginar.induct)
  case (1 b db off pr gs pg)
  show ?case
  proof (cases "off < length db")
    case True
    with "1.prems" have ne: "fetch db b off \<noteq> []" by (simp add: fetch_nonempty)
    with True "1.hyps" "1.prems" show ?thesis
      by (subst paginar.simps) (simp add: procesar_rows_fetch)
  next
    case False
    then show ?thesis by (subst paginar.simps) (simp add: procesar_rows_def)
  qed
qed

lemma agregar_state: "0 < b \<Longrightarrow> fst (agregar b db) = procesar_rows db []"
  by (simp add: agregar_def paginar_state)

text \<open>
  C9: on a source of 250 rows the driver with page size 100 fetches three pages, of 100,
  100 and 50 rows, and ends in the same groups as the driver with page size 250, which
  fetches one page; both end in the groups of a single pass over the rows.
\<close>

theorem paged_equals_single_pass:
  assumes "length db = 250"
  shows "snd (snd (agregar 100 db)) = [100, 100, 50]
    \<and> snd (snd (agregar 250 db)) = [250]
    \<and> fst (agregar 100 db) = fst (agregar 250 db)
    \<and> fst (agregar 100 db) = procesar_rows db []"
proof -
  have f0: "length (fetch db 100 0) = 100" and f1: "length (fetch db 100 100) = 100"
    and f2: "length (fetch db 100 200) = 50" and f3: "length (fetch db 250 0) = 250"
    using assms by (simp_all add: fetch_def)
  have n0: "fetch db 100 0 \<noteq> []" and n1: "fetch db 100 100 \<noteq> []"
    and n2: "fetch db 100 200 \<noteq> []" and n3: "fetch db 250 0 \<noteq> []"
    using assms by (simp_all add: fetch_nonempty)
  have "snd (snd (paginar 100 250 db 0 0 [] [])) = [100, 100, 50]"
    apply (subst paginar.simps, simp add: n0 f0)
    apply (subst paginar.simps, simp add: n1 f1)
    apply (subst paginar.simps, simp add: n2 f2)
    apply (subst paginar.simps, simp)
    done
  moreover have "snd (snd (paginar 250 250 db 0 0 [] [])) = [250]"
    apply (subst paginar.simps, simp add: n3 f3)
    apply (subst paginar.simps, simp)
    done
  ultimately show ?thesis
    using assms by (simp add: agregar_state) (simp add: agregar_def)
qed

theorem paged_equals_single_pass_witness:
  "length (map (\<lambda>i. obs_en_stock\<lparr>p_id := i\<rparr>) [0..<250]) = 250
   \<and> snd (snd (agregar 100 (map (\<lambda>i. obs_en_stock\<lparr>p_id := i\<rparr>) [0..<250]))) = [100, 100, 50]
   \<and> fst (agregar 100 (map (\<lambda>i. obs_en_stock\<lparr>p_id := i\<rparr>) [0..<250]))
       = fst (agregar 250 (map (\<lambda>i. obs_en_stock\<lparr>p_id := i\<rparr>) [0..<250]))"
proof -
  have h: "length (map (\<lambda>i. obs_en_stock\<lparr>p_id := i\<rparr>) [0..<250]) = 250" by simp
  from paged_equals_single_pass [OF h] h show ?thesis by blast
qed

section \<open>Minimum, maximum and saving of a row\<close>

lemma py_min_Min: "py_min p ps = Min (set (p # ps))"
proof -
  have "foldl (\<lambda>m x. if x < m then x else m) p ps = Min (set (p # ps))"
  proof (induction ps arbitrary: p)
    case Nil
    then show ?case by simp
  next
    case (Cons a ps)
    have "Min (set ((if a < p then a else p) # ps)) = Min (set (p # a # ps))"
      by (cases ps) (auto simp: min_def)
    with Cons.IH [of "if a < p then a else p"] show ?case by simp
  qed
  then show ?thesis by (simp add: py_min_def)
qed

lemma py_max_Max: "py_max p ps = Max (set (p # ps))"
proof -
  have "foldl (\<lambda>m x. if m < x then x else m) p ps = Max (set (p # ps))"
  proof (induction ps arbitrary: p)
    case Nil
    then show ?case by simp
  next
    case (Cons a ps)
    have "Max (set ((if p < a then a else p) # ps)) = Max (set (p # a # ps))"
      by (cases ps) (auto simp: max_def)
    with Cons.IH [of "if p < a then a else p"] show ?case by simp
  qed
  then show ?thesis by (simp add: py_max_def)
qed

lemma py_round2_cents: "py_round2 (of_int n / 100) = of_int n / 100"
  by (simp add: py_round2_def)

lemma set_map_filter_Some: "set (List.map_filter h xs) = {y. \<exists>x \<in> set xs. h x = Some y}"
  by (induction xs) (auto simp: map_filter_simps split: option.splits)

lemma columna_valida:
  "(case columna g f of (f', p, s, u) \<Rightarrow> if s = Si then p else None) = Some q
     \<longleftrightarrow> stocks g f = Some (Some True) \<and> precios g f = Some q"
  by (cases "stocks g f") (auto simp: columna_def py_truthy_def)

lemma set_precios_validos:
  "set (precios_validos g) =
     {p. \<exists>f \<in> set farmacias_conocidas. stocks g f = Some (Some True) \<and> precios g f = Some p}"
  unfolding precios_validos_def set_map_filter_Some
  by (simp add: columna_valida)


lemmas fila_eval =
  fila_de_def precios_validos_def columna_def py_min_def py_max_def
  py_round2_def

text \<open>
  C3, as the claim states it, fails: with an out-of-stock price of 4 at one pharmacy and
  an in-stock price of 5 at another, the row's minimum and maximum are both 5 and the
  saving is 0, not 4, 5 and 1.
\<close>

theorem extrema_ignore_stock_counterexample:
  "precios (grupos_get (procesar_rows [obs_agotada, obs_dosfarma] []) ''NAME_paracetamol'') ''Atida'' = Some 4
   \<and> precios (grupos_get (procesar_rows [obs_agotada, obs_dosfarma] []) ''NAME_paracetamol'') ''DosFarma'' = Some 5
   \<and> Precio_Min (fila_de (grupos_get (procesar_rows [obs_agotada, obs_dosfarma] []) ''NAME_paracetamol'')) = Some 5
   \<and> Precio_Max (fila_de (grupos_get (procesar_rows [obs_agotada, obs_dosfarma] []) ''NAME_paracetamol'')) = Some 5
   \<and> Ahorro_EUR (fila_de (grupos_get (procesar_rows [obs_agotada, obs_dosfarma] []) ''NAME_paracetamol'')) = 0"
  by (simp add: obs_defs agregar_eval fila_eval)

text \<open>
  C3, amended: the valid prices of a group are the stored prices of the known pharmacies
  whose stored stock flag is true. \<open>Precio_Min\<close> and \<open>Precio_Max\<close> are their minimum
  and maximum and \<open>Ahorro_EUR\<close> is the difference rounded to two decimals, which is the
  difference itself for prices in whole cents and is 0 for a single valid price; with no
  valid price both extrema are null and the saving is 0.
\<close>

theorem fila_de_extrema:
  "set (precios_validos g) =
     {p. \<exists>f \<in> set farmacias_conocidas. stocks g f = Some (Some True) \<and> precios g f = Some p}
   \<and> (precios_validos g = [] \<longrightarrow>
        Precio_Min (fila_de g) = None \<and> Precio_Max (fila_de g) = None \<and> Ahorro_EUR (fila_de g) = 0)
   \<and> (precios_validos g \<noteq> [] \<longrightarrow>
        Precio_Min (fila_de g) = Some (Min (set (precios_validos g)))
        \<and> Precio_Max (fila_de g) = Some (Max (set (precios_validos g)))
        \<and> Ahorro_EUR (fila_de g)
            = py_round2 (Max (set (precios_validos g)) - Min (set (precios_validos g))))
   \<and> (length (precios_validos g) = 1 \<longrightarrow> Ahorro_EUR (fila_de g) = 0)
   \<and> (precios_validos g \<noteq> [] \<and> (\<forall>p \<in> set (precios_validos g). \<exists>n. p = of_int n / 100) \<longrightarrow>
        Ahorro_EUR (fila_de g) = Max (set (precios_validos g)) - Min (set (precios_validos g)))"
proof -
  have empty: "precios_validos g = [] \<longrightarrow>
      Precio_Min (fila_de g) = None \<and> Precio_Max (fila_de g) = None \<and> Ahorro_EUR (fila_de g) = 0"
    by (simp add: fila_de_def)
  have some: "Precio_Min (fila_de g) = Some (Min (set (precios_validos g)))
      \<and> Precio_Max (fila_de g) = Some (Max (set (precios_validos g)))
      \<and> Ahorro_EUR (fila_de g)
          = py_round2 (Max (set (precios_validos g)) - Min (set (precios_validos g)))"
    if "precios_validos g \<noteq> []"
  proof -
    from that obtain p ps where "precios_validos g = p # ps" by (cases "precios_validos g") auto
    then show ?thesis by (simp add: fila_de_def py_min_Min py_max_Max)
  qed
  have one: "Ahorro_EUR (fila_de g) = 0" if "length (precios_validos g) = 1"
  proof -
    from that obtain p where "precios_validos g = [p]"
      by (cases "precios_validos g") auto
    then show ?thesis by (simp add: fila_de_def py_min_def py_max_def py_round2_def)
  qed
  have cents: "Ahorro_EUR (fila_de g) = Max (set (precios_validos g)) - Min (set (precios_validos g))"
    if ne: "precios_validos g \<noteq> []" and c: "\<forall>p \<in> set (precios_validos g). \<exists>n. p = of_int n / 100"
  proof -
    from ne have "Max (set (precios_validos g)) \<in> set (precios_validos g)"
      and "Min (set (precios_validos g)) \<in> set (precios_validos g)" by simp_all
    with c obtain a b where a: "Max (set (precios_validos g)) = of_int a / 100"
      and b: "Min (set (precios_validos g)) = of_int b / 100" by blast
    have "py_round2 (of_int a / 100 - of_int b / 100) = of_int a / 100 - of_int b / 100"
      using py_round2_cents [of "a - b"] by (simp add: diff_divide_distrib)
    with some [OF ne] a b show ?thesis by simp
  qed
  from set_precios_validos [of g] empty some one cents show ?thesis by blast
qed

theorem fila_de_extrema_witness:
  "precios_validos grupo_abc = [5, 9 / 2]
   \<and> precios grupo_abc ''Atida'' = Some 4
   \<and> Precio_Min (fila_de grupo_abc) = Some (9 / 2)
   \<and> Precio_Max (fila_de grupo_abc) = Some 5
   \<and> Ahorro_EUR (fila_de grupo_abc) = 1 / 2"
proof -
  have pv: "precios_validos grupo_abc = [5, 9 / 2]"
    by (simp add: grupo_abc_def obs_defs agregar_eval fila_eval)
  have at: "precios grupo_abc ''Atida'' = Some 4"
    by (simp add: grupo_abc_def obs_defs agregar_eval)
  have ne: "precios_validos grupo_abc \<noteq> []" by (simp add: pv)
  from fila_de_extrema [of grupo_abc]
  have "precios_validos grupo_abc \<noteq> [] \<longrightarrow>
        Precio_Min (fila_de grupo_abc) = Some (Min (set (precios_validos grupo_abc)))
        \<and> Precio_Max (fila_de grupo_abc) = Some (Max (set (precios_validos grupo_abc)))
        \<and> Ahorro_EUR (fila_de grupo_abc)
            = py_round2 (Max (set (precios_validos grupo_abc)) - Min (set (precios_validos grupo_abc)))"
    by blast
  with ne have "Precio_Min (fila_de grupo_abc) = Some (Min (set (precios_validos grupo_abc)))
        \<and> Precio_Max (fila_de grupo_abc) = Some (Max (set (precios_validos grupo_abc)))
        \<and> Ahorro_EUR (fila_de grupo_abc)
            = py_round2 (Max (set (precios_validos grupo_abc)) - Min (set (precios_validos grupo_abc)))"
    by blast
  moreover have "Min (set (precios_validos grupo_abc)) = 9 / 2"
    and "Max (set (precios_validos grupo_abc)) = 5" by (simp_all add: pv)
  moreover have "py_round2 (5 - 9 / 2) = 1 / 2" by (simp add: py_round2_def)
  ultimately show ?thesis using pv at by simp
qed

section \<open>The rows of the table\<close>

lemma keys_procesar_row:
  "map fst (procesar_row r gs) =
     (if match_key (ean r) (nombre r) \<in> set (map fst gs) then map fst gs
      else map fst gs @ [match_key (ean r) (nombre r)])"
  by (simp add: procesar_row_def Let_def update_keys)

lemma distinct_procesar_rows:
  "distinct (map fst gs) \<Longrightarrow> distinct (map fst (procesar_rows rows gs))"
proof (induction rows arbitrary: gs)
  case Nil
  then show ?case by (simp add: procesar_rows_def)
next
  case (Cons r rows)
  from Cons.prems have "distinct (map fst (procesar_row r gs))"
    by (simp add: keys_procesar_row)
  from Cons.IH [OF this] show ?case by (simp add: procesar_rows_def)
qed

lemma set_keys_procesar_rows:
  "set (map fst (procesar_rows rows gs)) =
     set (map fst gs) \<union> (\<lambda>r. match_key (ean r) (nombre r)) ` set rows"
proof (induction rows arbitrary: gs)
  case Nil
  then show ?case by (simp add: procesar_rows_def)
next
  case (Cons r rows)
  have "set (map fst (procesar_row r gs)) = insert (match_key (ean r) (nombre r)) (set (map fst gs))"
    by (auto simp: keys_procesar_row)
  with Cons.IH [of "procesar_row r gs"] show ?case by (simp add: procesar_rows_def)
qed

lemma main_single_pass: "db \<noteq> [] \<Longrightarrow> main db = Some (tabla_final (procesar_rows db []))"
proof -
  assume ne: "db \<noteq> []"
  obtain gs pr pg where a: "agregar 10000 db = (gs, pr, pg)" by (cases "agregar 10000 db") auto
  have "fst (agregar 10000 db) = procesar_rows db []" by (simp add: agregar_state)
  with a have "gs = procesar_rows db []" by simp
  with ne a show ?thesis by (simp add: main_def)
qed

lemmas main_eval = main_def agregar_def paginar.simps fetch_def tabla_final_def clave_orden_def

text \<open>
  C4, as the claim states it, fails: a database whose only row has no price, and one whose
  only row is out of stock, both yield a table with a row for that key, although the key
  has no valid price at any pharmacy.
\<close>

theorem row_without_price_counterexample:
  "main [obs_sin_precio] =
     Some [\<lparr>Producto = ''Crema X 50ml'', EAN = ''8412345678901'',
            columnas = [(''DosFarma'', None, No, []), (''FarmaciasDirect'', None, No, []),
                        (''PromoFarma'', None, No, []), (''Atida'', None, No, []),
                        (''FarmaciasVazquez'', None, No, [])],
            Precio_Min = None, Precio_Max = None, Ahorro_EUR = 0\<rparr>]
   \<and> main [obs_agotada] =
     Some [\<lparr>Producto = ''Paracetamol'', EAN = [],
            columnas = [(''DosFarma'', None, No, []), (''FarmaciasDirect'', None, No, []),
                        (''PromoFarma'', None, No, []), (''Atida'', Some 4, No, ''https://a/1''),
                        (''FarmaciasVazquez'', None, No, [])],
            Precio_Min = None, Precio_Max = None, Ahorro_EUR = 0\<rparr>]"
  by (simp add: obs_defs agregar_eval fila_eval main_eval)

text \<open>
  C4, amended: on a non-empty database \<open>main\<close> returns the table of the groups of a
  single pass over the rows. The groups' keys are distinct and are exactly the match keys
  of the rows, and the table holds the row of every group, whether or not it has a valid
  price: as many rows as there are distinct match keys.
\<close>

theorem one_row_per_match_key:
  assumes "db \<noteq> []"
  shows "main db = Some (tabla_final (procesar_rows db []))
    \<and> distinct (map fst (procesar_rows db []))
    \<and> set (map fst (procesar_rows db [])) = (\<lambda>r. match_key (ean r) (nombre r)) ` set db
    \<and> mset (tabla_final (procesar_rows db []))
        = mset (map (\<lambda>(k, g). fila_de g) (procesar_rows db []))
    \<and> length (tabla_final (procesar_rows db []))
        = card ((\<lambda>r. match_key (ean r) (nombre r)) ` set db)"
proof -
  have d: "distinct (map fst (procesar_rows db []))" by (simp add: distinct_procesar_rows)
  have s: "set (map fst (procesar_rows db [])) = (\<lambda>r. match_key (ean r) (nombre r)) ` set db"
    using set_keys_procesar_rows [of db "[]"] by simp
  have "length (tabla_final (procesar_rows db [])) = length (map fst (procesar_rows db []))"
    by (simp add: tabla_final_def)
  also have "\<dots> = card (set (map fst (procesar_rows db [])))"
    using d by (rule distinct_card [symmetric])
  finally have l: "length (tabla_final (procesar_rows db []))
      = card ((\<lambda>r. match_key (ean r) (nombre r)) ` set db)" by (simp only: s)
  have m: "mset (tabla_final (procesar_rows db []))
        = mset (map (\<lambda>(k, g). fila_de g) (procesar_rows db []))"
    by (simp add: tabla_final_def)
  from main_single_pass [OF assms] d s m l show ?thesis by blast
qed

theorem one_row_per_match_key_witness:
  "[obs_agotada, obs_crema, obs_en_stock, obs_crema_atida] \<noteq> []
   \<and> map fst (procesar_rows [obs_agotada, obs_crema, obs_en_stock, obs_crema_atida] [])
       = [''NAME_paracetamol'', ''8412345678901'']
   \<and> main [obs_agotada, obs_crema, obs_en_stock, obs_crema_atida]
       = Some (tabla_final (procesar_rows [obs_agotada, obs_crema, obs_en_stock, obs_crema_atida] []))
   \<and> length (tabla_final (procesar_rows [obs_agotada, obs_crema, obs_en_stock, obs_crema_atida] [])) = 2"
proof -
  have ne: "[obs_agotada, obs_crema, obs_en_stock, obs_crema_atida] \<noteq> []" by simp
  have k: "map fst (procesar_rows [obs_agotada, obs_crema, obs_en_stock, obs_crema_atida] [])
       = [''NAME_paracetamol'', ''8412345678901'']"
    by (simp add: obs_defs agregar_eval Let_def)
  have "length (tabla_final (procesar_rows [obs_agotada, obs_crema, obs_en_stock, obs_crema_atida] []))
      = length (map fst (procesar_rows [obs_agotada, obs_crema, obs_en_stock, obs_crema_atida] []))"
    by (simp add: tabla_final_def)
  then have l: "length (tabla_final (procesar_rows [obs_agotada, obs_crema, obs_en_stock, obs_crema_atida] [])) = 2"
    by (simp only: k) simp
  from one_row_per_match_key [OF ne] k l show ?thesis by blast
qed

end
